theory Spec2Isabelle
  imports Complex_Main "HOL-Library.AList"
begin

section \<open>Molecules as the notebook reads them\<close>

text \<open>
  The notebook \<^verbatim>\<open>0_save-training-data.ipynb\<close> reads an RDKit molecule through four
  getters only: \<^verbatim>\<open>GetAtoms\<close>, \<^verbatim>\<open>GetAtomicNum\<close>, \<^verbatim>\<open>GetBonds\<close> and, on a bond,
  \<^verbatim>\<open>GetBeginAtomIdx\<close>, \<^verbatim>\<open>GetEndAtomIdx\<close>, \<^verbatim>\<open>GetBondType\<close>. A molecule is
  therefore the list of its atoms (in index order) and the list of its bonds (in RDKit's
  bond order). Atom indices are unsigned in RDKit, hence \<open>nat\<close>; atomic numbers are Python
  integers. The bond category \<^verbatim>\<open>rdkit.Chem.rdchem.BondType\<close> is declared outside the
  notebook; the code only compares its values (\<^verbatim>\<open>==\<close> in \<^verbatim>\<open>list.index\<close>, \<^verbatim>\<open><\<close> in
  \<^verbatim>\<open>sorted\<close>), so it is a type parameter \<open>'b\<close> with a linear order.
\<close>

record Atom =
  GetAtomicNum :: int

record 'b Bond =
  GetBeginAtomIdx :: nat
  GetEndAtomIdx :: nat
  GetBondType :: 'b

record 'b Mol =
  GetAtoms :: "Atom list"
  GetBonds :: "'b Bond list"

section \<open>Python values, dictionaries and exceptions\<close>

text \<open>
  A numpy array carries its shape. The encoder meets two kinds: a one-dimensional array of
  shape \<open>(n,)\<close>, which is what \<^verbatim>\<open>np.array\<close> makes of a flat list and in particular of
  the empty list (\<^verbatim>\<open>np.array([])\<close> has shape \<open>(0,)\<close>), and a two-column array of
  shape \<open>(n, 2)\<close>, whose rows are (source, target) pairs; \<^verbatim>\<open>np.zeros((0, 2))\<close> is the
  two-column array without rows. The model does not record the element type of an array.
\<close>

datatype ndarray =
    Array1 "real list"
  | Array2 "(nat \<times> nat) list"

text \<open>
  The values stored in an encoded record: an integer, a float (the two labels, which are
  only copied, never computed with), a list of integers, and an array. \<open>NdArray rows\<close>
  is the two-column array with these rows. A \<^verbatim>\<open>dict\<close> is an association list in
  insertion order; \<^verbatim>\<open>d[k] = v\<close> is \<^const>\<open>AList.update\<close>, which replaces the value
  of a present key in place and appends an absent one, as Python does.
\<close>

datatype pyval =
    PyInt int
  | PyFloat real
  | PyList "nat list"
  | PyArray ndarray

abbreviation NdArray :: "(nat \<times> nat) list \<Rightarrow> pyval" where
  "NdArray rows \<equiv> PyArray (Array2 rows)"

type_synonym pydict = "(string \<times> pyval) list"

text \<open>
  The exceptions the encoder can raise. \<open>ValueError msg\<close> is \<^verbatim>\<open>raise ValueError(msg)\<close>
  with its message. \<open>ValueError_not_in_list\<close> is the \<^verbatim>\<open>ValueError\<close> of
  \<^verbatim>\<open>list.index\<close>; Python's message for it is the \<^verbatim>\<open>repr\<close> of the missing value followed
  by \<^verbatim>\<open>is not in list\<close>, and the model, which does not render values as text, records
  the kind of failure and not the message.
\<close>

datatype pyerror =
    ValueError string
  | ValueError_not_in_list
  | NameError string

section \<open>The vocabulary builder\<close>

text \<open>
  \<^verbatim>\<open>
  atom_types = set()
  bond_types = set()
  for mol in mols:
      atom_types.update([x.GetAtomicNum() for x in mol.GetAtoms()])
      bond_types.update([x.GetBondType() for x in mol.GetBonds()])
  return sorted(atom_types), sorted(bond_types)
  \<close>
\<close>

fun type_loop :: "'b Mol list \<Rightarrow> int set \<times> 'b set \<Rightarrow> int set \<times> 'b set" where
  "type_loop [] (atom_types, bond_types) = (atom_types, bond_types)"
| "type_loop (mol # mols) (atom_types, bond_types) =
     type_loop mols
       (atom_types \<union> set (map GetAtomicNum (GetAtoms mol)),
        bond_types \<union> set (map GetBondType (GetBonds mol)))"

definition make_type_lookup_tables :: "('b::linorder) Mol list \<Rightarrow> int list \<times> 'b list" where
  "make_type_lookup_tables mols =
     (case type_loop mols ({}, {}) of
        (atom_types, bond_types) \<Rightarrow>
          (sorted_list_of_set atom_types, sorted_list_of_set bond_types))"

section \<open>The record encoder\<close>

text \<open>
  \<^verbatim>\<open>tbl.index(x)\<close>: the position of the first element equal to \<open>x\<close>, or
  \<^verbatim>\<open>ValueError\<close> when there is none.
\<close>

fun list_index :: "'a list \<Rightarrow> 'a \<Rightarrow> pyerror + nat" where
  "list_index [] x = Inl ValueError_not_in_list"
| "list_index (y # ys) x =
     (if y = x then Inr 0
      else (case list_index ys x of Inl e \<Rightarrow> Inl e | Inr i \<Rightarrow> Inr (Suc i)))"

text \<open>\<^verbatim>\<open>list(map(tbl.index, xs))\<close>: the first failing lookup aborts the whole map.\<close>

fun map_index :: "'a list \<Rightarrow> 'a list \<Rightarrow> pyerror + nat list" where
  "map_index tbl [] = Inr []"
| "map_index tbl (x # xs) =
     (case list_index tbl x of
        Inl e \<Rightarrow> Inl e
      | Inr i \<Rightarrow> (case map_index tbl xs of Inl e \<Rightarrow> Inl e | Inr js \<Rightarrow> Inr (i # js)))"

text \<open>
  The loop over \<^verbatim>\<open>mol.GetBonds()\<close>: each bond appends the rows \<^verbatim>\<open>[a, b]\<close> and
  \<^verbatim>\<open>[b, a]\<close> to \<^verbatim>\<open>connectivity\<close> and its category twice to \<^verbatim>\<open>edge_type\<close>.
\<close>

fun bond_loop :: "'b Bond list \<Rightarrow> (nat \<times> nat) list \<times> 'b list \<Rightarrow> (nat \<times> nat) list \<times> 'b list" where
  "bond_loop [] (connectivity, edge_type) = (connectivity, edge_type)"
| "bond_loop (bond # bonds) (connectivity, edge_type) =
     (let a = GetBeginAtomIdx bond;
          b = GetEndAtomIdx bond;
          b_type = GetBondType bond
      in bond_loop bonds (connectivity @ [(a, b), (b, a)], edge_type @ [b_type, b_type]))"

text \<open>
  \<^verbatim>\<open>np.lexsort((k1, k0))\<close> is an indirect stable sort: it returns the permutation of the
  row numbers that sorts by the last key \<open>k0\<close> first and breaks ties by \<open>k1\<close>; rows that
  agree on both keys keep their order. That is a stable sort by \<open>k1\<close> followed by a stable
  sort by \<open>k0\<close> (\<^const>\<open>sort_key\<close> is a stable insertion sort).
\<close>

definition lexsort :: "nat list \<Rightarrow> nat list \<Rightarrow> nat list" where
  "lexsort k1 k0 = sort_key (\<lambda>i. k0 ! i) (sort_key (\<lambda>i. k1 ! i) [0..<length k0])"

text \<open>
  \<^verbatim>\<open>np.array(connectivity)\<close> for the list of two-element rows the bond loop has built: a
  two-column array when there is a row, the one-dimensional empty array when there is none.
  \<^verbatim>\<open>.size\<close> is the number of elements.
\<close>

definition np_array :: "(nat \<times> nat) list \<Rightarrow> ndarray" where
  "np_array rows = (if rows = [] then Array1 [] else Array2 rows)"

fun ndarray_size :: "ndarray \<Rightarrow> nat" where
  "ndarray_size (Array1 xs) = length xs"
| "ndarray_size (Array2 rows) = 2 * length rows"

text \<open>\<^verbatim>\<open>np.zeros((0, 2))\<close>: no rows, two columns.\<close>

definition np_zeros_0_2 :: ndarray where
  "np_zeros_0_2 = Array2 []"

text \<open>\<^verbatim>\<open>connectivity.max()\<close>: the largest entry of the whole array, over both columns.\<close>

definition ndarray_max :: "(nat \<times> nat) list \<Rightarrow> nat" where
  "ndarray_max c = Max (set (map fst c) \<union> set (map snd c))"

text \<open>
  The error branch of the encoder evaluates \<^verbatim>\<open>convert_nx_to_smiles(graph)\<close> before it
  builds its message. The notebook neither defines nor imports \<^verbatim>\<open>convert_nx_to_smiles\<close>
  (its imports are \<^verbatim>\<open>List\<close>, \<^verbatim>\<open>Tuple\<close>, \<^verbatim>\<open>plt\<close>, \<^verbatim>\<open>make_tfrecord\<close>,
  \<^verbatim>\<open>train_test_split\<close>, \<^verbatim>\<open>Chem\<close>, \<^verbatim>\<open>tqdm\<close>, \<^verbatim>\<open>tf\<close>, \<^verbatim>\<open>pd\<close>, \<^verbatim>\<open>np\<close>,
  \<^verbatim>\<open>json\<close>), and no cell binds \<^verbatim>\<open>graph\<close>; Python looks the callee up first, so the
  call raises \<^verbatim>\<open>NameError\<close> and yields no string.
\<close>

definition convert_nx_to_smiles_graph :: "pyerror + string" where
  "convert_nx_to_smiles_graph = Inl (NameError ''convert_nx_to_smiles'')"

text \<open>
  \<^verbatim>\<open>
  atom_type = [a.GetAtomicNum() for a in mol.GetAtoms()]
  atom_type_id = list(map(atom_types.index, atom_type))
  connectivity = []; edge_type = []
  for bond in mol.GetBonds(): ...
  edge_type_id = list(map(bond_types.index, edge_type))
  connectivity = np.array(connectivity)
  if connectivity.size > 0:
      inds = np.lexsort((connectivity[:, 1], connectivity[:, 0]))
      connectivity = connectivity[inds, :]
      if connectivity.max() != len(atom_type) - 1:
          smiles = convert_nx_to_smiles(graph)
          raise ValueError(f"Problem with unconnected atoms for {smiles}")
  else:
      connectivity = np.zeros((0, 2))
  return {'n_atom': len(atom_type), 'n_bond': len(edge_type), 'atom': atom_type_id,
          'bond': edge_type_id, 'connectivity': connectivity}
  \<close>
  In the branch \<^verbatim>\<open>connectivity.size > 0\<close> the array is the two-column array of the rows
  in the list, so its columns, its rows and its largest entry are those of the list. In
  the other branch the array, which is \<^verbatim>\<open>np.array([])\<close> of shape \<open>(0,)\<close>, is replaced
  by \<^verbatim>\<open>np.zeros((0, 2))\<close>.
\<close>

definition convert_mol_to_dict :: "'b Mol \<Rightarrow> int list \<Rightarrow> 'b list \<Rightarrow> pyerror + pydict" where
  "convert_mol_to_dict mol atom_types bond_types =
     (let atom_type = map GetAtomicNum (GetAtoms mol) in
      case map_index atom_types atom_type of
        Inl e \<Rightarrow> Inl e
      | Inr atom_type_id \<Rightarrow>
         (case bond_loop (GetBonds mol) ([], []) of
            (connectivity, edge_type) \<Rightarrow>
              (case map_index bond_types edge_type of
                 Inl e \<Rightarrow> Inl e
               | Inr edge_type_id \<Rightarrow>
                  (let mk = (\<lambda>connectivity.
                         [(''n_atom'', PyInt (int (length atom_type))),
                          (''n_bond'', PyInt (int (length edge_type))),
                          (''atom'', PyList atom_type_id),
                          (''bond'', PyList edge_type_id),
                          (''connectivity'', PyArray connectivity)]);
                       array = np_array connectivity
                   in if ndarray_size array > 0 then
                        (let inds = lexsort (map snd connectivity) (map fst connectivity);
                             connectivity = map (\<lambda>i. connectivity ! i) inds
                         in if int (ndarray_max connectivity) \<noteq> int (length atom_type) - 1 then
                              (case convert_nx_to_smiles_graph of
                                 Inl e \<Rightarrow> Inl e
                               | Inr smiles \<Rightarrow>
                                   Inl (ValueError (''Problem with unconnected atoms for '' @ smiles)))
                            else Inr (mk (Array2 connectivity)))
                      else Inr (mk np_zeros_0_2)))))"

section \<open>Writing the partitions\<close>

text \<open>
  \<^verbatim>\<open>
  for _, entry in tqdm(dataset.iterrows(), desc=name):
      record = entry['dict']
      for o in ['u0_atom', 'bandgap']:
          record[o] = entry[o]
      writer.write(make_tfrecord(record))
  \<close>
  The column \<^verbatim>\<open>dict\<close> of the data frame holds references to the dictionaries the encoder
  returned; \<^verbatim>\<open>entry['dict']\<close> hands out that reference, so the assignment
  \<^verbatim>\<open>record[o] = entry[o]\<close> writes into the stored object. The store maps an address to
  the dictionary that lives there, a row holds the address of its dictionary and its two
  labels; \<^verbatim>\<open>entry[o]\<close> is read for the two label columns only, which every row has.
  \<^verbatim>\<open>make_tfrecord\<close> is imported from \<^verbatim>\<open>mpnn.data\<close>, which is not part of the
  notebook: it is the parameter \<open>make_tfrecord\<close>, a function from a dictionary to a blob.
  The writer is the list of the blobs written so far.
\<close>

record entry =
  dict :: nat
  u0_atom :: real
  bandgap :: real

type_synonym store = "nat \<Rightarrow> pydict"

definition entry_get :: "entry \<Rightarrow> string \<Rightarrow> pyval" where
  "entry_get e key = (if key = ''u0_atom'' then PyFloat (u0_atom e) else PyFloat (bandgap e))"

fun label_loop :: "string list \<Rightarrow> entry \<Rightarrow> nat \<Rightarrow> store \<Rightarrow> store" where
  "label_loop [] e record s = s"
| "label_loop (key # keys) e record s =
     label_loop keys e record (s(record := AList.update key (entry_get e key) (s record)))"

fun write_loop :: "(pydict \<Rightarrow> 'blob) \<Rightarrow> entry list \<Rightarrow> store \<times> 'blob list \<Rightarrow> store \<times> 'blob list" where
  "write_loop make_tfrecord [] (s, writer) = (s, writer)"
| "write_loop make_tfrecord (e # es) (s, writer) =
     (let record = dict e;
          s' = label_loop [''u0_atom'', ''bandgap''] e record s
      in write_loop make_tfrecord es (s', writer @ [make_tfrecord (s' record)]))"

text \<open>
  The outer loop over the three partitions: each \<open>(name, dataset)\<close> pair gets a file of
  its own, written by \<^const>\<open>write_loop\<close>; the store is threaded through.
\<close>

fun partition_loop ::
  "(pydict \<Rightarrow> 'blob) \<Rightarrow> (string \<times> entry list) list \<Rightarrow> store \<times> (string \<times> 'blob list) list
     \<Rightarrow> store \<times> (string \<times> 'blob list) list" where
  "partition_loop make_tfrecord [] (s, files) = (s, files)"
| "partition_loop make_tfrecord ((name, dataset) # rest) (s, files) =
     (case write_loop make_tfrecord dataset (s, []) of
        (s', written) \<Rightarrow>
          partition_loop make_tfrecord rest
            (s', files @ [(''datasets/'' @ name @ ''_data.proto'', written)]))"

section \<open>Notions used to state the properties\<close>

text \<open>
  What \<^const>\<open>bond_loop\<close> has accumulated when it ends: the directed rows and the bond
  categories, both in emission order (two consecutive entries per bond).
\<close>

definition directed_rows :: "'b Bond list \<Rightarrow> (nat \<times> nat) list" where
  "directed_rows bonds =
     concat (map (\<lambda>b. [(GetBeginAtomIdx b, GetEndAtomIdx b), (GetEndAtomIdx b, GetBeginAtomIdx b)]) bonds)"

definition directed_types :: "'b Bond list \<Rightarrow> 'b list" where
  "directed_types bonds = concat (map (\<lambda>b. [GetBondType b, GetBondType b]) bonds)"

text \<open>The array after \<^verbatim>\<open>connectivity = connectivity[inds, :]\<close>.\<close>

definition sorted_rows :: "(nat \<times> nat) list \<Rightarrow> (nat \<times> nat) list" where
  "sorted_rows c = map (\<lambda>i. c ! i) (lexsort (map snd c) (map fst c))"

text \<open>The order of two rows, or row numbers, by a primary key \<open>f\<close> and a secondary key \<open>g\<close>.\<close>

definition lex_le :: "('a \<Rightarrow> nat) \<Rightarrow> ('a \<Rightarrow> nat) \<Rightarrow> 'a \<Rightarrow> 'a \<Rightarrow> bool" where
  "lex_le f g x y \<longleftrightarrow> f x < f y \<or> (f x = f y \<and> g x \<le> g y)"

text \<open>
  A dictionary with the two labels appended, a dictionary that has neither label yet, all
  rows of all partitions, and the file a partition is written to when the dictionary at
  address \<open>a\<close> was \<open>base a\<close> before any label was attached.
\<close>

definition with_labels :: "pydict \<Rightarrow> entry \<Rightarrow> pydict" where
  "with_labels d e = d @ [(''u0_atom'', PyFloat (u0_atom e)), (''bandgap'', PyFloat (bandgap e))]"

definition label_free :: "pydict \<Rightarrow> bool" where
  "label_free d \<longleftrightarrow> ''u0_atom'' \<notin> fst ` set d \<and> ''bandgap'' \<notin> fst ` set d"

definition rows_of :: "(string \<times> entry list) list \<Rightarrow> entry list" where
  "rows_of parts = concat (map snd parts)"

definition proto_file :: "(pydict \<Rightarrow> 'blob) \<Rightarrow> (nat \<Rightarrow> pydict) \<Rightarrow> string \<times> entry list \<Rightarrow> string \<times> 'blob list" where
  "proto_file make_tfrecord base p =
     (''datasets/'' @ fst p @ ''_data.proto'',
      map (\<lambda>e. make_tfrecord (with_labels (base (dict e)) e)) (snd p))"

definition labelled_inv :: "(nat \<Rightarrow> pydict) \<Rightarrow> store \<Rightarrow> entry list \<Rightarrow> bool" where
  "labelled_inv base s es \<longleftrightarrow>
     (\<forall>e\<in>set es. label_free (base (dict e)) \<and>
        (s (dict e) = base (dict e) \<or> (\<exists>e0. s (dict e) = with_labels (base (dict e)) e0)))"

section \<open>Example molecules\<close>

text \<open>
  RDKit's \<^verbatim>\<open>BondType\<close> values are integers; the four the notebook meets are
  \<^verbatim>\<open>SINGLE = 1\<close>, \<^verbatim>\<open>DOUBLE = 2\<close>, \<^verbatim>\<open>TRIPLE = 3\<close> and \<^verbatim>\<open>AROMATIC = 12\<close>, which
  is the order the notebook prints for \<^verbatim>\<open>bond_types\<close>. The examples instantiate the
  bond category with \<open>nat\<close>.
\<close>

definition SINGLE :: nat where "SINGLE = 1"

definition DOUBLE :: nat where "DOUBLE = 2"

definition TRIPLE :: nat where "TRIPLE = 3"

definition AROMATIC :: nat where "AROMATIC = 12"

text \<open>
  Methane as \<^verbatim>\<open>Chem.AddHs(Chem.MolFromSmiles('C'))\<close> gives it (the notebook's own
  example): the carbon is atom 0, the hydrogens are atoms 1 to 4.
\<close>

definition methane :: "nat Mol" where
  "methane = \<lparr>GetAtoms = [\<lparr>GetAtomicNum = 6\<rparr>, \<lparr>GetAtomicNum = 1\<rparr>, \<lparr>GetAtomicNum = 1\<rparr>,
                         \<lparr>GetAtomicNum = 1\<rparr>, \<lparr>GetAtomicNum = 1\<rparr>],
              GetBonds = [\<lparr>GetBeginAtomIdx = 0, GetEndAtomIdx = 1, GetBondType = SINGLE\<rparr>,
                          \<lparr>GetBeginAtomIdx = 0, GetEndAtomIdx = 2, GetBondType = SINGLE\<rparr>,
                          \<lparr>GetBeginAtomIdx = 0, GetEndAtomIdx = 3, GetBondType = SINGLE\<rparr>,
                          \<lparr>GetBeginAtomIdx = 0, GetEndAtomIdx = 4, GetBondType = SINGLE\<rparr>]\<rparr>"

text \<open>
  Formaldehyde, \<^verbatim>\<open>Chem.AddHs(Chem.MolFromSmiles('C=O'))\<close>: carbon 0, oxygen 1, then the
  two hydrogens; the double bond comes first, the two bonds to the added hydrogens follow.
\<close>

definition formaldehyde :: "nat Mol" where
  "formaldehyde = \<lparr>GetAtoms = [\<lparr>GetAtomicNum = 6\<rparr>, \<lparr>GetAtomicNum = 8\<rparr>, \<lparr>GetAtomicNum = 1\<rparr>,
                         \<lparr>GetAtomicNum = 1\<rparr>],
              GetBonds = [\<lparr>GetBeginAtomIdx = 0, GetEndAtomIdx = 1, GetBondType = DOUBLE\<rparr>,
                          \<lparr>GetBeginAtomIdx = 0, GetEndAtomIdx = 2, GetBondType = SINGLE\<rparr>,
                          \<lparr>GetBeginAtomIdx = 0, GetEndAtomIdx = 3, GetBondType = SINGLE\<rparr>]\<rparr>"

text \<open>
  Carbon dioxide next to a helium atom, written with the helium last
  (\<^verbatim>\<open>O=C=O.[He]\<close>) and first (\<^verbatim>\<open>[He].O=C=O\<close>); no hydrogens are added to either.
\<close>

definition co2_he :: "nat Mol" where
  "co2_he = \<lparr>GetAtoms = [\<lparr>GetAtomicNum = 8\<rparr>, \<lparr>GetAtomicNum = 6\<rparr>, \<lparr>GetAtomicNum = 8\<rparr>,
                         \<lparr>GetAtomicNum = 2\<rparr>],
              GetBonds = [\<lparr>GetBeginAtomIdx = 0, GetEndAtomIdx = 1, GetBondType = DOUBLE\<rparr>,
                          \<lparr>GetBeginAtomIdx = 1, GetEndAtomIdx = 2, GetBondType = DOUBLE\<rparr>]\<rparr>"

definition he_co2 :: "nat Mol" where
  "he_co2 = \<lparr>GetAtoms = [\<lparr>GetAtomicNum = 2\<rparr>, \<lparr>GetAtomicNum = 8\<rparr>, \<lparr>GetAtomicNum = 6\<rparr>,
                         \<lparr>GetAtomicNum = 8\<rparr>],
              GetBonds = [\<lparr>GetBeginAtomIdx = 1, GetEndAtomIdx = 2, GetBondType = DOUBLE\<rparr>,
                          \<lparr>GetBeginAtomIdx = 2, GetEndAtomIdx = 3, GetBondType = DOUBLE\<rparr>]\<rparr>"


text \<open>The record of the helium atom, and two data-frame rows that point to addresses 0 and 1.\<close>

definition helium_dict :: pydict where
  "helium_dict = [(''n_atom'', PyInt 1), (''n_bond'', PyInt 0), (''atom'', PyList [1]),
                  (''bond'', PyList []), (''connectivity'', NdArray [])]"

definition row0 :: entry where
  "row0 = \<lparr>dict = 0, u0_atom = -1, bandgap = 2\<rparr>"

definition row1 :: entry where
  "row1 = \<lparr>dict = 1, u0_atom = -3, bandgap = 4\<rparr>"

section \<open>The vocabulary builder: sorted, duplicate-free, complete\<close>

lemma type_loop_fst:
  "fst (type_loop mols (A, B)) = A \<union> (\<Union>mol\<in>set mols. set (map GetAtomicNum (GetAtoms mol)))"
  by (induction mols arbitrary: A B) auto

lemma type_loop_snd:
  "snd (type_loop mols (A, B)) = B \<union> (\<Union>mol\<in>set mols. set (map GetBondType (GetBonds mol)))"
  by (induction mols arbitrary: A B) auto

lemma type_loop_finite:
  "finite A \<Longrightarrow> finite B \<Longrightarrow>
   finite (fst (type_loop mols (A, B))) \<and> finite (snd (type_loop mols (A, B)))"
  by (simp add: type_loop_fst type_loop_snd)

lemma make_type_lookup_tables_fst:
  "set (fst (make_type_lookup_tables mols)) =
     (\<Union>mol\<in>set mols. set (map GetAtomicNum (GetAtoms mol)))"
proof -
  obtain A B where ab: "type_loop mols ({}, {}) = (A, B)"
    by (cases "type_loop mols ({}, {})")
  have "finite A" using type_loop_finite [of "{}" "{}" mols] ab by simp
  moreover have "A = (\<Union>mol\<in>set mols. set (map GetAtomicNum (GetAtoms mol)))"
    using type_loop_fst [of mols "{}" "{}"] ab by simp
  ultimately show ?thesis by (simp add: make_type_lookup_tables_def ab)
qed

lemma make_type_lookup_tables_snd:
  "set (snd (make_type_lookup_tables mols)) =
     (\<Union>mol\<in>set mols. set (map GetBondType (GetBonds mol)))"
proof -
  obtain A B where ab: "type_loop mols ({}, {}) = (A, B)"
    by (cases "type_loop mols ({}, {})")
  have "finite B" using type_loop_finite [of "{}" "{}" mols] ab by simp
  moreover have "B = (\<Union>mol\<in>set mols. set (map GetBondType (GetBonds mol)))"
    using type_loop_snd [of mols "{}" "{}"] ab by simp
  ultimately show ?thesis by (simp add: make_type_lookup_tables_def ab)
qed

lemma make_type_lookup_tables_sorted:
  "sorted (fst (make_type_lookup_tables mols)) \<and> distinct (fst (make_type_lookup_tables mols)) \<and>
   sorted (snd (make_type_lookup_tables mols)) \<and> distinct (snd (make_type_lookup_tables mols))"
  by (simp add: make_type_lookup_tables_def split: prod.splits)

lemma make_type_lookup_tables_mem:
  assumes "mol \<in> set mols" and "make_type_lookup_tables mols = (atom_types, bond_types)"
  shows "set (map GetAtomicNum (GetAtoms mol)) \<subseteq> set atom_types"
    and "set (directed_types (GetBonds mol)) \<subseteq> set bond_types"
proof -
  from assms(2) have a: "atom_types = fst (make_type_lookup_tables mols)"
    and b: "bond_types = snd (make_type_lookup_tables mols)" by simp_all
  from assms(1) show "set (map GetAtomicNum (GetAtoms mol)) \<subseteq> set atom_types"
    unfolding a make_type_lookup_tables_fst by auto
  from assms(1) show "set (directed_types (GetBonds mol)) \<subseteq> set bond_types"
    unfolding b make_type_lookup_tables_snd by (auto simp: directed_types_def)
qed

lemma tables_formaldehyde:
  "make_type_lookup_tables [methane, formaldehyde] = ([1, 6, 8], [SINGLE, DOUBLE])"
  by code_simp

text \<open>
  Claim C6. \<^const>\<open>make_type_lookup_tables\<close> is a function of the corpus alone; its first
  result holds exactly the atomic numbers that occur in some molecule of the corpus and its
  second exactly the bond categories that occur, each in ascending order and without
  duplicates; on the empty corpus both results are the empty list. As a total function it
  has no error case.
\<close>

theorem make_type_lookup_tables_spec:
  "set (fst (make_type_lookup_tables mols)) =
     {GetAtomicNum x | x mol. mol \<in> set mols \<and> x \<in> set (GetAtoms mol)} \<and>
   set (snd (make_type_lookup_tables mols)) =
     {GetBondType x | x mol. mol \<in> set mols \<and> x \<in> set (GetBonds mol)} \<and>
   sorted (fst (make_type_lookup_tables mols)) \<and>
   distinct (fst (make_type_lookup_tables mols)) \<and>
   sorted (snd (make_type_lookup_tables mols)) \<and>
   distinct (snd (make_type_lookup_tables mols)) \<and>
   make_type_lookup_tables ([] :: ('b::linorder) Mol list) = ([], [])"
proof -
  have a: "set (fst (make_type_lookup_tables mols)) =
     {GetAtomicNum x | x mol. mol \<in> set mols \<and> x \<in> set (GetAtoms mol)}"
    unfolding make_type_lookup_tables_fst by auto
  have b: "set (snd (make_type_lookup_tables mols)) =
     {GetBondType x | x mol. mol \<in> set mols \<and> x \<in> set (GetBonds mol)}"
    unfolding make_type_lookup_tables_snd by auto
  have e: "make_type_lookup_tables ([] :: 'b Mol list) = ([], [])"
    by (simp add: make_type_lookup_tables_def)
  from a b e make_type_lookup_tables_sorted [of mols] show ?thesis by blast
qed

theorem make_type_lookup_tables_spec_witness:
  "make_type_lookup_tables [methane, formaldehyde] = ([1, 6, 8], [SINGLE, DOUBLE]) \<and>
   set [1, 6, 8] =
     {GetAtomicNum x | x mol. mol \<in> set [methane, formaldehyde] \<and> x \<in> set (GetAtoms mol)} \<and>
   set [SINGLE, DOUBLE] =
     {GetBondType x | x mol. mol \<in> set [methane, formaldehyde] \<and> x \<in> set (GetBonds mol)} \<and>
   make_type_lookup_tables ([] :: nat Mol list) = ([], [])"
  using make_type_lookup_tables_spec [of "[methane, formaldehyde]"]
  unfolding tables_formaldehyde fst_conv snd_conv
  by blast

section \<open>Lookups, the bond loop and the sort\<close>

lemma list_index_Inr:
  "list_index tbl x = Inr i \<Longrightarrow> i < length tbl \<and> tbl ! i = x"
  by (induction tbl arbitrary: i) (auto split: if_splits sum.splits)

lemma list_index_Inl:
  "list_index tbl x = Inl e \<Longrightarrow> x \<notin> set tbl \<and> e = ValueError_not_in_list"
  by (induction tbl) (auto split: if_splits sum.splits)

lemma map_index_Inr:
  "map_index tbl xs = Inr js \<Longrightarrow>
     length js = length xs \<and> (\<forall>k<length xs. js ! k < length tbl \<and> tbl ! (js ! k) = xs ! k)"
proof (induction xs arbitrary: js)
  case Nil
  then show ?case by simp
next
  case (Cons x xs)
  then obtain i js' where i: "list_index tbl x = Inr i" and js': "map_index tbl xs = Inr js'"
    and js: "js = i # js'"
    by (auto split: sum.splits)
  from Cons.IH [OF js'] list_index_Inr [OF i] js show ?case
    by (auto simp: nth_Cons split: nat.splits)
qed

lemma map_index_Inl:
  "map_index tbl xs = Inl e \<Longrightarrow> \<not> set xs \<subseteq> set tbl \<and> e = ValueError_not_in_list"
  by (induction xs) (auto split: sum.splits dest: list_index_Inl)

lemma map_index_subset:
  "set xs \<subseteq> set tbl \<Longrightarrow> \<exists>js. map_index tbl xs = Inr js"
  by (cases "map_index tbl xs") (auto dest: map_index_Inl)

lemma bond_loop_eq:
  "bond_loop bonds (c, e) =
     (c @ concat (map (\<lambda>b. [(GetBeginAtomIdx b, GetEndAtomIdx b), (GetEndAtomIdx b, GetBeginAtomIdx b)]) bonds),
      e @ concat (map (\<lambda>b. [GetBondType b, GetBondType b]) bonds))"
  by (induction bonds arbitrary: c e) (simp_all add: Let_def)

lemma bond_loop_directed:
  "bond_loop bonds ([], []) = (directed_rows bonds, directed_types bonds)"
  by (simp add: bond_loop_eq directed_rows_def directed_types_def)

lemma length_directed_rows: "length (directed_rows bonds) = 2 * length bonds"
  by (induction bonds) (simp_all add: directed_rows_def)

lemma length_directed_types: "length (directed_types bonds) = 2 * length bonds"
  by (induction bonds) (simp_all add: directed_types_def)

lemma directed_types_nth:
  "j < 2 * length bonds \<Longrightarrow> directed_types bonds ! j = GetBondType (bonds ! (j div 2))"
proof (induction bonds arbitrary: j)
  case Nil
  then show ?case by simp
next
  case (Cons b bonds)
  show ?case
  proof (cases "j < 2")
    case True
    then have "j = 0 \<or> j = 1" by auto
    then show ?thesis by (auto simp: directed_types_def)
  next
    case False
    then obtain k where k: "j = Suc (Suc k)" by (metis less_2_cases_iff not0_implies_Suc)
    with Cons.prems have "k < 2 * length bonds" by simp
    from Cons.IH [OF this] k show ?thesis by (simp add: directed_types_def)
  qed
qed

lemma directed_rows_entries:
  "set (map fst (directed_rows bonds)) \<union> set (map snd (directed_rows bonds)) =
     GetBeginAtomIdx ` set bonds \<union> GetEndAtomIdx ` set bonds"
  by (induction bonds) (auto simp: directed_rows_def)

text \<open>
  A stable sort by the primary key of a list already sorted by the secondary key is sorted
  lexicographically: each element is inserted in front of the first element whose primary
  key is not smaller, and its secondary key is not above that of any element behind it.
\<close>

lemma insort_key_lex:
  "sorted_wrt (lex_le f g) zs \<Longrightarrow> \<forall>z\<in>set zs. g y \<le> g z \<Longrightarrow>
   sorted_wrt (lex_le f g) (insort_key f y zs)"
  by (induction zs) (auto simp: lex_le_def set_insort_key)

lemma sort_key_lex:
  "sorted (map g ys) \<Longrightarrow> sorted_wrt (lex_le f g) (sort_key f ys)"
  by (induction ys) (auto intro: insort_key_lex)

lemma lexsort_sorted:
  "sorted_wrt (lex_le (\<lambda>i. k0 ! i) (\<lambda>i. k1 ! i)) (lexsort k1 k0)"
  unfolding lexsort_def by (rule sort_key_lex) simp

lemma lexsort_set: "set (lexsort k1 k0) = {0..<length k0}"
  by (simp add: lexsort_def)

lemma lexsort_length: "length (lexsort k1 k0) = length k0"
  by (simp add: lexsort_def)

lemma sorted_rows_Nil: "sorted_rows [] = []"
  by (simp add: sorted_rows_def lexsort_def)

lemma length_sorted_rows: "length (sorted_rows c) = length c"
  by (simp add: sorted_rows_def lexsort_length)

lemma set_sorted_rows: "set (sorted_rows c) = set c"
proof -
  have "set (sorted_rows c) = (\<lambda>i. c ! i) ` {0..<length c}"
    by (simp add: sorted_rows_def lexsort_set)
  also have "\<dots> = set c"
    by (auto simp: set_conv_nth)
  finally show ?thesis .
qed

lemma sorted_rows_lex:
  "sorted_wrt (\<lambda>r r'. fst r < fst r' \<or> (fst r = fst r' \<and> snd r \<le> snd r')) (sorted_rows c)"
proof -
  let ?inds = "lexsort (map snd c) (map fst c)"
  have s: "sorted_wrt (lex_le (\<lambda>i. map fst c ! i) (\<lambda>i. map snd c ! i)) ?inds"
    by (rule lexsort_sorted)
  have r: "\<forall>i\<in>set ?inds. i < length c"
    by (simp add: lexsort_set)
  have "sorted_wrt (\<lambda>i j. fst (c ! i) < fst (c ! j) \<or> (fst (c ! i) = fst (c ! j) \<and> snd (c ! i) \<le> snd (c ! j))) ?inds"
    by (rule sorted_wrt_mono_rel [OF _ s]) (use r in \<open>auto simp: lex_le_def\<close>)
  then show ?thesis
    by (simp add: sorted_rows_def sorted_wrt_map)
qed

lemma ndarray_max_sorted_rows: "ndarray_max (sorted_rows c) = ndarray_max c"
  by (simp add: ndarray_max_def set_sorted_rows)

lemma ndarray_max_mem:
  assumes "bonds \<noteq> []"
  shows "\<exists>b\<in>set bonds. ndarray_max (directed_rows bonds) = GetBeginAtomIdx b \<or>
                         ndarray_max (directed_rows bonds) = GetEndAtomIdx b"
proof -
  let ?S = "set (map fst (directed_rows bonds)) \<union> set (map snd (directed_rows bonds))"
  have S: "?S = GetBeginAtomIdx ` set bonds \<union> GetEndAtomIdx ` set bonds"
    by (rule directed_rows_entries)
  from assms have "?S \<noteq> {}" unfolding S by simp
  moreover have "finite ?S" by simp
  ultimately have "Max ?S \<in> ?S" by (rule Max_in [rotated])
  then show ?thesis unfolding ndarray_max_def S by auto
qed

section \<open>The record encoder, case by case\<close>

text \<open>
  The encoder in closed form: the two lookups, then the check of the largest index when
  there is a bond, then the record.
\<close>

lemma convert_mol_to_dict_unfold:
  "convert_mol_to_dict mol atom_types bond_types =
     (case map_index atom_types (map GetAtomicNum (GetAtoms mol)) of
        Inl e \<Rightarrow> Inl e
      | Inr atom_type_id \<Rightarrow>
         (case map_index bond_types (directed_types (GetBonds mol)) of
            Inl e \<Rightarrow> Inl e
          | Inr edge_type_id \<Rightarrow>
              if GetBonds mol \<noteq> [] \<and>
                 int (ndarray_max (directed_rows (GetBonds mol))) \<noteq> int (length (GetAtoms mol)) - 1
              then Inl (NameError ''convert_nx_to_smiles'')
              else Inr [(''n_atom'', PyInt (int (length (GetAtoms mol)))),
                        (''n_bond'', PyInt (2 * int (length (GetBonds mol)))),
                        (''atom'', PyList atom_type_id),
                        (''bond'', PyList edge_type_id),
                        (''connectivity'', NdArray (sorted_rows (directed_rows (GetBonds mol))))]))"
proof (cases "GetBonds mol = []")
  case True
  then show ?thesis
    by (simp add: convert_mol_to_dict_def bond_loop_directed directed_rows_def directed_types_def
          sorted_rows_Nil np_array_def np_zeros_0_2_def split: sum.splits)
next
  case False
  then have "0 < length (directed_rows (GetBonds mol))"
    by (simp add: length_directed_rows)
  then have "directed_rows (GetBonds mol) \<noteq> []"
    by auto
  with False show ?thesis
    by (simp add: convert_mol_to_dict_def bond_loop_directed convert_nx_to_smiles_graph_def
          length_directed_types length_directed_rows ndarray_max_sorted_rows Let_def np_array_def
          flip: sorted_rows_def split: sum.splits)
qed

text \<open>
  The notebook's own example: the model returns for methane exactly the dictionary the
  notebook shows as the output of its cell 7.
\<close>

lemma convert_methane:
  "convert_mol_to_dict methane [1, 6, 7, 8, 9] [SINGLE, DOUBLE, TRIPLE, AROMATIC] =
     Inr [(''n_atom'', PyInt 5), (''n_bond'', PyInt 8), (''atom'', PyList [1, 0, 0, 0, 0]),
          (''bond'', PyList [0, 0, 0, 0, 0, 0, 0, 0]),
          (''connectivity'',
           NdArray [(0, 1), (0, 2), (0, 3), (0, 4), (1, 0), (2, 0), (3, 0), (4, 0)])]"
  by code_simp

lemma convert_formaldehyde:
  "convert_mol_to_dict formaldehyde [1, 6, 8] [SINGLE, DOUBLE] =
     Inr [(''n_atom'', PyInt 4), (''n_bond'', PyInt 6), (''atom'', PyList [1, 2, 0, 0]),
          (''bond'', PyList [1, 1, 0, 0, 0, 0]),
          (''connectivity'', NdArray [(0, 1), (0, 2), (0, 3), (1, 0), (2, 0), (3, 0)])]"
  by code_simp

text \<open>
  Claim C1, on formaldehyde (three bonds in the order C=O, C-H, C-H, vocabulary
  \<open>[SINGLE, DOUBLE]\<close>). The encoder sorts \<^verbatim>\<open>connectivity\<close> and returns
  \<^verbatim>\<open>edge_type_id\<close> as it was emitted: row 1 of the sorted table is \<open>(0, 2)\<close>, a
  direction of bond 1, which is a single bond (vocabulary index 0), and \<open>bond[1]\<close> is 1,
  the index of \<open>DOUBLE\<close>. The claim asks for 0 there.
\<close>

theorem bond_not_reordered:
  "convert_mol_to_dict formaldehyde [1, 6, 8] [SINGLE, DOUBLE] =
     Inr [(''n_atom'', PyInt 4), (''n_bond'', PyInt 6), (''atom'', PyList [1, 2, 0, 0]),
          (''bond'', PyList [1, 1, 0, 0, 0, 0]),
          (''connectivity'', NdArray [(0, 1), (0, 2), (0, 3), (1, 0), (2, 0), (3, 0)])] \<and>
   GetBonds formaldehyde ! 1 =
     \<lparr>GetBeginAtomIdx = 0, GetEndAtomIdx = 2, GetBondType = SINGLE\<rparr> \<and>
   list_index [SINGLE, DOUBLE] (GetBondType (GetBonds formaldehyde ! 1)) = Inr 0"
  by code_simp

text \<open>
  With a bond and with vocabularies that hold every type of the molecule, the encoder has
  two outcomes: the \<^verbatim>\<open>NameError\<close> when the largest index in the connectivity is not
  the last atom, a record when it is.
\<close>

lemma structural_check:
  assumes "GetBonds mol \<noteq> []"
    and "set (map GetAtomicNum (GetAtoms mol)) \<subseteq> set atom_types"
    and "set (map GetBondType (GetBonds mol)) \<subseteq> set bond_types"
  shows "(int (ndarray_max (directed_rows (GetBonds mol))) \<noteq> int (length (GetAtoms mol)) - 1 \<longrightarrow>
            convert_mol_to_dict mol atom_types bond_types =
              Inl (NameError ''convert_nx_to_smiles'')) \<and>
         (int (ndarray_max (directed_rows (GetBonds mol))) = int (length (GetAtoms mol)) - 1 \<longrightarrow>
            (\<exists>r. convert_mol_to_dict mol atom_types bond_types = Inr r))"
proof -
  from map_index_subset [OF assms(2)] obtain atom where
    a: "map_index atom_types (map GetAtomicNum (GetAtoms mol)) = Inr atom" by blast
  have "set (directed_types (GetBonds mol)) \<subseteq> set bond_types"
    using assms(3) by (auto simp: directed_types_def)
  from map_index_subset [OF this] obtain bond where
    b: "map_index bond_types (directed_types (GetBonds mol)) = Inr bond" by blast
  show ?thesis
    unfolding convert_mol_to_dict_unfold using assms(1) by (simp add: a b)
qed

text \<open>
  Claim C2, on \<^verbatim>\<open>O=C=O.[He]\<close>: the molecule has two bonds, the largest index in its
  connectivity is 2 and it has 4 atoms, so the check fails; what the encoder raises is the
  \<^verbatim>\<open>NameError\<close> of the unbound \<^verbatim>\<open>convert_nx_to_smiles\<close>, not the
  \<^verbatim>\<open>ValueError\<close> that names the molecule.
\<close>

theorem unconnected_raises_name_error:
  "GetBonds co2_he \<noteq> [] \<and>
   ndarray_max (directed_rows (GetBonds co2_he)) = 2 \<and>
   length (GetAtoms co2_he) = 4 \<and>
   convert_mol_to_dict co2_he [2, 6, 8] [DOUBLE] = Inl (NameError ''convert_nx_to_smiles'')"
  by code_simp

text \<open>
  Claim C3 as stated fails on \<^verbatim>\<open>[He].O=C=O\<close>: the molecule has four atoms and two
  bonds, atom 0 has no bond, and the encoder returns a record, because the largest index in
  the connectivity is 3, the last atom.
\<close>

theorem isolated_inner_atom_counterexample:
  "1 < length (GetAtoms he_co2) \<and>
   GetBonds he_co2 \<noteq> [] \<and>
   0 \<notin> GetBeginAtomIdx ` set (GetBonds he_co2) \<and>
   0 \<notin> GetEndAtomIdx ` set (GetBonds he_co2) \<and>
   convert_mol_to_dict he_co2 [2, 6, 8] [DOUBLE] =
     Inr [(''n_atom'', PyInt 4), (''n_bond'', PyInt 4), (''atom'', PyList [0, 2, 1, 2]),
          (''bond'', PyList [0, 0, 0, 0]),
          (''connectivity'', NdArray [(1, 2), (2, 1), (2, 3), (3, 2)])]"
  by code_simp

text \<open>
  Claim C3, amended. For every multi-atom molecule that has at least one bond and whose
  highest-indexed atom has no bond, the encoder fails with an error and returns no record,
  whatever the vocabularies are.
\<close>

theorem last_atom_unbonded_fails:
  assumes "GetBonds mol \<noteq> []"
    and "1 < length (GetAtoms mol)"
    and "\<forall>b\<in>set (GetBonds mol).
           GetBeginAtomIdx b \<noteq> length (GetAtoms mol) - 1 \<and>
           GetEndAtomIdx b \<noteq> length (GetAtoms mol) - 1"
  shows "\<exists>e. convert_mol_to_dict mol atom_types bond_types = Inl e"
proof -
  from ndarray_max_mem [OF assms(1)] assms(3)
  have "ndarray_max (directed_rows (GetBonds mol)) \<noteq> length (GetAtoms mol) - 1"
    by auto
  with assms(2)
  have "int (ndarray_max (directed_rows (GetBonds mol))) \<noteq> int (length (GetAtoms mol)) - 1"
    by linarith
  with assms(1) show ?thesis
    unfolding convert_mol_to_dict_unfold by (simp split: sum.splits)
qed

theorem last_atom_unbonded_fails_witness:
  "GetBonds co2_he \<noteq> [] \<and> 1 < length (GetAtoms co2_he) \<and>
   length (GetAtoms co2_he) - 1 \<notin> GetBeginAtomIdx ` set (GetBonds co2_he) \<and>
   length (GetAtoms co2_he) - 1 \<notin> GetEndAtomIdx ` set (GetBonds co2_he) \<and>
   (\<exists>e. convert_mol_to_dict co2_he [2, 6, 8] [DOUBLE] = Inl e)"
proof -
  have 1: "GetBonds co2_he \<noteq> []" by (simp add: co2_he_def)
  have 2: "1 < length (GetAtoms co2_he)" by (simp add: co2_he_def)
  have 3: "\<forall>b\<in>set (GetBonds co2_he).
      GetBeginAtomIdx b \<noteq> length (GetAtoms co2_he) - 1 \<and>
      GetEndAtomIdx b \<noteq> length (GetAtoms co2_he) - 1"
    by (simp add: co2_he_def)
  from 3 have 4: "length (GetAtoms co2_he) - 1 \<notin> GetBeginAtomIdx ` set (GetBonds co2_he)"
    and 5: "length (GetAtoms co2_he) - 1 \<notin> GetEndAtomIdx ` set (GetBonds co2_he)"
    by auto
  from last_atom_unbonded_fails [OF 1 2 3, of "[2, 6, 8]" "[DOUBLE]"] 1 2 4 5 show ?thesis
    by blast
qed

text \<open>
  Claim C4. Every record the encoder returns has exactly the five fields, in this order;
  \<open>atom\<close> has \<open>n_atom\<close> entries, which is the number of atoms, \<open>bond\<close> and
  \<open>connectivity\<close> have \<open>n_bond\<close> entries each, and \<open>n_bond\<close> is twice the number of
  bonds of the molecule (so it is even).
\<close>

theorem encoder_lengths:
  assumes "convert_mol_to_dict mol atom_types bond_types = Inr r"
  shows "\<exists>n_atom n_bond atom bond connectivity.
           r = [(''n_atom'', PyInt n_atom), (''n_bond'', PyInt n_bond), (''atom'', PyList atom),
                (''bond'', PyList bond), (''connectivity'', NdArray connectivity)] \<and>
           int (length atom) = n_atom \<and> n_atom = int (length (GetAtoms mol)) \<and>
           int (length bond) = n_bond \<and> int (length connectivity) = n_bond \<and>
           n_bond = 2 * int (length (GetBonds mol))"
proof -
  from assms obtain atom bond where
    a: "map_index atom_types (map GetAtomicNum (GetAtoms mol)) = Inr atom" and
    b: "map_index bond_types (directed_types (GetBonds mol)) = Inr bond" and
    r: "r = [(''n_atom'', PyInt (int (length (GetAtoms mol)))),
             (''n_bond'', PyInt (2 * int (length (GetBonds mol)))),
             (''atom'', PyList atom), (''bond'', PyList bond),
             (''connectivity'', NdArray (sorted_rows (directed_rows (GetBonds mol))))]"
    unfolding convert_mol_to_dict_unfold by (auto split: sum.splits if_splits)
  from map_index_Inr [OF a] have la: "length atom = length (GetAtoms mol)" by simp
  from map_index_Inr [OF b] have lb: "length bond = 2 * length (GetBonds mol)"
    by (simp add: length_directed_types)
  have lc: "length (sorted_rows (directed_rows (GetBonds mol))) = 2 * length (GetBonds mol)"
    by (simp add: length_sorted_rows length_directed_rows)
  from r la lb lc show ?thesis by simp
qed

theorem encoder_lengths_witness:
  "convert_mol_to_dict methane [1, 6, 7, 8, 9] [SINGLE, DOUBLE, TRIPLE, AROMATIC] =
     Inr [(''n_atom'', PyInt 5), (''n_bond'', PyInt 8), (''atom'', PyList [1, 0, 0, 0, 0]),
          (''bond'', PyList [0, 0, 0, 0, 0, 0, 0, 0]),
          (''connectivity'',
           NdArray [(0, 1), (0, 2), (0, 3), (0, 4), (1, 0), (2, 0), (3, 0), (4, 0)])] \<and>
   (\<exists>n_atom n_bond atom bond connectivity.
      [(''n_atom'', PyInt 5), (''n_bond'', PyInt 8), (''atom'', PyList [1, 0, 0, 0, 0]),
       (''bond'', PyList [0, 0, 0, 0, 0, 0, 0, 0]),
       (''connectivity'',
        NdArray [(0, 1), (0, 2), (0, 3), (0, 4), (1, 0), (2, 0), (3, 0), (4, 0)])] =
      [(''n_atom'', PyInt n_atom), (''n_bond'', PyInt n_bond), (''atom'', PyList atom),
       (''bond'', PyList bond), (''connectivity'', NdArray connectivity)] \<and>
      int (length atom) = n_atom \<and> n_atom = int (length (GetAtoms methane)) \<and>
      int (length bond) = n_bond \<and> int (length connectivity) = n_bond \<and>
      n_bond = 2 * int (length (GetBonds methane)))"
  using encoder_lengths [OF convert_methane] convert_methane by blast

text \<open>
  Claim C5. In every record the encoder returns, the connectivity table is sorted by source
  and then by target: of two adjacent rows the first has the smaller source, or the same
  source and a target that is not larger.
\<close>

theorem connectivity_sorted:
  assumes "convert_mol_to_dict mol atom_types bond_types = Inr r"
  shows "\<exists>c. map_of r ''connectivity'' = Some (NdArray c) \<and>
           (\<forall>i. Suc i < length c \<longrightarrow>
              fst (c ! i) \<le> fst (c ! Suc i) \<and>
              (fst (c ! i) = fst (c ! Suc i) \<longrightarrow> snd (c ! i) \<le> snd (c ! Suc i)))"
proof -
  let ?c = "sorted_rows (directed_rows (GetBonds mol))"
  from assms have m: "map_of r ''connectivity'' = Some (NdArray ?c)"
    unfolding convert_mol_to_dict_unfold by (auto split: sum.splits if_splits)
  have "fst (?c ! i) \<le> fst (?c ! Suc i) \<and>
        (fst (?c ! i) = fst (?c ! Suc i) \<longrightarrow> snd (?c ! i) \<le> snd (?c ! Suc i))"
    if "Suc i < length ?c" for i
  proof -
    have "i < Suc i" by simp
    from sorted_wrt_nth_less [OF sorted_rows_lex this that] show ?thesis
      by auto
  qed
  with m show ?thesis by blast
qed

theorem connectivity_sorted_witness:
  "convert_mol_to_dict methane [1, 6, 7, 8, 9] [SINGLE, DOUBLE, TRIPLE, AROMATIC] =
     Inr [(''n_atom'', PyInt 5), (''n_bond'', PyInt 8), (''atom'', PyList [1, 0, 0, 0, 0]),
          (''bond'', PyList [0, 0, 0, 0, 0, 0, 0, 0]),
          (''connectivity'',
           NdArray [(0, 1), (0, 2), (0, 3), (0, 4), (1, 0), (2, 0), (3, 0), (4, 0)])] \<and>
   (\<exists>c. map_of [(''n_atom'', PyInt 5), (''n_bond'', PyInt 8), (''atom'', PyList [1, 0, 0, 0, 0]),
          (''bond'', PyList [0, 0, 0, 0, 0, 0, 0, 0]),
          (''connectivity'',
           NdArray [(0, 1), (0, 2), (0, 3), (0, 4), (1, 0), (2, 0), (3, 0), (4, 0)])]
         ''connectivity'' = Some (NdArray c) \<and>
        (\<forall>i. Suc i < length c \<longrightarrow>
              fst (c ! i) \<le> fst (c ! Suc i) \<and>
              (fst (c ! i) = fst (c ! Suc i) \<longrightarrow> snd (c ! i) \<le> snd (c ! Suc i))))"
  using connectivity_sorted [OF convert_methane] convert_methane by blast

text \<open>
  Claim C7. When the vocabularies are built from a corpus that contains the molecule, each
  entry of \<open>atom\<close> is a position of \<open>atom_types\<close> that holds the atomic number of the
  atom at that position of the molecule, and entry \<open>j\<close> of \<open>bond\<close> is a position of
  \<open>bond_types\<close> that holds the category of the bond it was emitted for, bond \<open>j div 2\<close>.
\<close>

theorem vocabulary_round_trip:
  assumes "mol \<in> set mols"
    and "make_type_lookup_tables mols = (atom_types, bond_types)"
    and "convert_mol_to_dict mol atom_types bond_types = Inr r"
  shows "\<exists>atom bond.
           map_of r ''atom'' = Some (PyList atom) \<and> map_of r ''bond'' = Some (PyList bond) \<and>
           length atom = length (GetAtoms mol) \<and>
           (\<forall>i<length (GetAtoms mol).
              atom ! i < length atom_types \<and>
              atom_types ! (atom ! i) = GetAtomicNum (GetAtoms mol ! i)) \<and>
           length bond = 2 * length (GetBonds mol) \<and>
           (\<forall>j<2 * length (GetBonds mol).
              bond ! j < length bond_types \<and>
              bond_types ! (bond ! j) = GetBondType (GetBonds mol ! (j div 2)))"
proof -
  from assms(3) obtain atom bond where
    a: "map_index atom_types (map GetAtomicNum (GetAtoms mol)) = Inr atom" and
    b: "map_index bond_types (directed_types (GetBonds mol)) = Inr bond" and
    r: "map_of r ''atom'' = Some (PyList atom)" "map_of r ''bond'' = Some (PyList bond)"
    unfolding convert_mol_to_dict_unfold by (auto split: sum.splits if_splits)
  from map_index_Inr [OF a]
  have la: "length atom = length (GetAtoms mol)"
    and ia: "\<forall>i<length (GetAtoms mol).
               atom ! i < length atom_types \<and>
               atom_types ! (atom ! i) = GetAtomicNum (GetAtoms mol ! i)"
    by simp_all
  from map_index_Inr [OF b]
  have lb: "length bond = 2 * length (GetBonds mol)"
    and ib: "\<forall>j<2 * length (GetBonds mol).
               bond ! j < length bond_types \<and>
               bond_types ! (bond ! j) = GetBondType (GetBonds mol ! (j div 2))"
    by (simp_all add: length_directed_types directed_types_nth)
  from r la ia lb ib show ?thesis by blast
qed

theorem vocabulary_round_trip_witness:
  "formaldehyde \<in> set [methane, formaldehyde] \<and>
   make_type_lookup_tables [methane, formaldehyde] = ([1, 6, 8], [SINGLE, DOUBLE]) \<and>
   convert_mol_to_dict formaldehyde [1, 6, 8] [SINGLE, DOUBLE] =
     Inr [(''n_atom'', PyInt 4), (''n_bond'', PyInt 6), (''atom'', PyList [1, 2, 0, 0]),
          (''bond'', PyList [1, 1, 0, 0, 0, 0]),
          (''connectivity'', NdArray [(0, 1), (0, 2), (0, 3), (1, 0), (2, 0), (3, 0)])] \<and>
   (\<exists>atom bond.
      map_of [(''n_atom'', PyInt 4), (''n_bond'', PyInt 6), (''atom'', PyList [1, 2, 0, 0]),
          (''bond'', PyList [1, 1, 0, 0, 0, 0]),
          (''connectivity'', NdArray [(0, 1), (0, 2), (0, 3), (1, 0), (2, 0), (3, 0)])]
        ''atom'' = Some (PyList atom) \<and>
      map_of [(''n_atom'', PyInt 4), (''n_bond'', PyInt 6), (''atom'', PyList [1, 2, 0, 0]),
          (''bond'', PyList [1, 1, 0, 0, 0, 0]),
          (''connectivity'', NdArray [(0, 1), (0, 2), (0, 3), (1, 0), (2, 0), (3, 0)])]
        ''bond'' = Some (PyList bond) \<and>
      length atom = length (GetAtoms formaldehyde) \<and>
      (\<forall>i<length (GetAtoms formaldehyde).
         atom ! i < length [1, 6, 8 :: int] \<and>
         [1, 6, 8] ! (atom ! i) = GetAtomicNum (GetAtoms formaldehyde ! i)) \<and>
      length bond = 2 * length (GetBonds formaldehyde) \<and>
      (\<forall>j<2 * length (GetBonds formaldehyde).
         bond ! j < length [SINGLE, DOUBLE] \<and>
         [SINGLE, DOUBLE] ! (bond ! j) = GetBondType (GetBonds formaldehyde ! (j div 2))))"
proof -
  have m: "formaldehyde \<in> set [methane, formaldehyde]" by simp
  from vocabulary_round_trip [OF m tables_formaldehyde convert_formaldehyde]
    m tables_formaldehyde convert_formaldehyde
  show ?thesis by blast
qed


text \<open>
  The array the size test looks at when there is no bond has shape \<open>(0,)\<close> and no
  element; the array stored in the record is another one, of shape \<open>(0, 2)\<close>.
\<close>

lemma zero_rows_shape:
  "np_array [] = Array1 [] \<and> ndarray_size (np_array []) = 0 \<and>
   np_zeros_0_2 = Array2 [] \<and> np_array [] \<noteq> np_zeros_0_2"
  by (simp add: np_array_def np_zeros_0_2_def)




section \<open>Writing the partitions: the stored records are changed in place\<close>

lemma update_absent: "k \<notin> fst ` set d \<Longrightarrow> AList.update k v d = d @ [(k, v)]"
  by (induction d) auto

lemma update_present:
  "k \<notin> fst ` set d \<Longrightarrow> AList.update k v (d @ (k, x) # rest) = d @ (k, v) # rest"
  by (induction d) auto

lemma label_loop_eq:
  "label_loop [''u0_atom'', ''bandgap''] e a s =
     s(a := AList.update ''bandgap'' (PyFloat (bandgap e))
              (AList.update ''u0_atom'' (PyFloat (u0_atom e)) (s a)))"
  by (simp add: entry_get_def)

lemma put_labels_fresh:
  assumes "label_free d"
  shows "AList.update ''bandgap'' (PyFloat (bandgap e))
           (AList.update ''u0_atom'' (PyFloat (u0_atom e)) d) = with_labels d e"
proof -
  from assms have u: "''u0_atom'' \<notin> fst ` set d" and b: "''bandgap'' \<notin> fst ` set d"
    by (simp_all add: label_free_def)
  from b have b': "''bandgap'' \<notin> fst ` set (d @ [(''u0_atom'', PyFloat (u0_atom e))])"
    by simp
  show ?thesis
    unfolding update_absent [OF u] update_absent [OF b'] with_labels_def by simp
qed

lemma put_labels_again:
  assumes "label_free d"
  shows "AList.update ''bandgap'' (PyFloat (bandgap e))
           (AList.update ''u0_atom'' (PyFloat (u0_atom e)) (with_labels d e0)) = with_labels d e"
proof -
  from assms have u: "''u0_atom'' \<notin> fst ` set d" and b: "''bandgap'' \<notin> fst ` set d"
    by (simp_all add: label_free_def)
  have 1: "AList.update ''u0_atom'' (PyFloat (u0_atom e)) (with_labels d e0) =
           d @ (''u0_atom'', PyFloat (u0_atom e)) # [(''bandgap'', PyFloat (bandgap e0))]"
    unfolding with_labels_def using update_present [OF u] by simp
  from b have b': "''bandgap'' \<notin> fst ` set (d @ [(''u0_atom'', PyFloat (u0_atom e))])"
    by simp
  have 2: "AList.update ''bandgap'' (PyFloat (bandgap e))
             ((d @ [(''u0_atom'', PyFloat (u0_atom e))]) @ (''bandgap'', PyFloat (bandgap e0)) # []) =
           (d @ [(''u0_atom'', PyFloat (u0_atom e))]) @ (''bandgap'', PyFloat (bandgap e)) # []"
    by (rule update_present [OF b'])
  show ?thesis unfolding 1 using 2 by (simp add: with_labels_def)
qed

lemma label_loop_inv:
  assumes "label_free (base (dict e))"
    and "s (dict e) = base (dict e) \<or> (\<exists>e0. s (dict e) = with_labels (base (dict e)) e0)"
  shows "label_loop [''u0_atom'', ''bandgap''] e (dict e) s =
           s(dict e := with_labels (base (dict e)) e)"
  using assms put_labels_fresh [OF assms(1)] put_labels_again [OF assms(1)]
  unfolding label_loop_eq by auto

lemma write_loop_gen:
  assumes "labelled_inv base s es"
    and "write_loop make_tfrecord es (s, w) = (s', w')"
  shows "w' = w @ map (\<lambda>e. make_tfrecord (with_labels (base (dict e)) e)) es \<and>
         (\<forall>a. a \<notin> dict ` set es \<longrightarrow> s' a = s a) \<and>
         (\<forall>a\<in>dict ` set es. \<exists>e\<in>set es. dict e = a \<and> s' a = with_labels (base a) e)"
  using assms
proof (induction es arbitrary: s w)
  case Nil
  then show ?case by simp
next
  case (Cons e es)
  let ?s1 = "s(dict e := with_labels (base (dict e)) e)"
  from Cons.prems(1) have f: "label_free (base (dict e))"
    and d: "s (dict e) = base (dict e) \<or> (\<exists>e0. s (dict e) = with_labels (base (dict e)) e0)"
    by (simp_all add: labelled_inv_def)
  have l: "label_loop [''u0_atom'', ''bandgap''] e (dict e) s = ?s1"
    by (rule label_loop_inv [of base e s, OF f d])
  from Cons.prems(2) have w: "write_loop make_tfrecord es
      (?s1, w @ [make_tfrecord (with_labels (base (dict e)) e)]) = (s', w')"
    by (simp add: l Let_def del: label_loop.simps)
  have inv: "labelled_inv base ?s1 es"
    using Cons.prems(1) by (auto simp: labelled_inv_def)
  from Cons.IH [OF inv w]
  have 1: "w' = (w @ [make_tfrecord (with_labels (base (dict e)) e)]) @
                map (\<lambda>e. make_tfrecord (with_labels (base (dict e)) e)) es"
    and 2: "\<forall>a. a \<notin> dict ` set es \<longrightarrow> s' a = ?s1 a"
    and 3: "\<forall>a\<in>dict ` set es. \<exists>e\<in>set es. dict e = a \<and> s' a = with_labels (base a) e"
    by blast+
  from 1 have "w' = w @ map (\<lambda>e. make_tfrecord (with_labels (base (dict e)) e)) (e # es)"
    by simp
  moreover from 2 have "\<forall>a. a \<notin> dict ` set (e # es) \<longrightarrow> s' a = s a"
    by auto
  moreover have "\<forall>a\<in>dict ` set (e # es). \<exists>e'\<in>set (e # es). dict e' = a \<and> s' a = with_labels (base a) e'"
  proof
    fix a assume a: "a \<in> dict ` set (e # es)"
    show "\<exists>e'\<in>set (e # es). dict e' = a \<and> s' a = with_labels (base a) e'"
    proof (cases "a \<in> dict ` set es")
      case True
      with 3 show ?thesis by auto
    next
      case False
      with a have "a = dict e" by auto
      with False 2 show ?thesis by auto
    qed
  qed
  ultimately show ?case by blast
qed

lemma write_loop_inv:
  assumes "labelled_inv base s (es @ rest)"
    and "write_loop make_tfrecord es (s, w) = (s', w')"
  shows "labelled_inv base s' rest"
proof -
  from assms(1) have i: "labelled_inv base s es" and r: "labelled_inv base s rest"
    by (auto simp: labelled_inv_def)
  from write_loop_gen [OF i assms(2)]
  have 2: "\<forall>a. a \<notin> dict ` set es \<longrightarrow> s' a = s a"
    and 3: "\<forall>a\<in>dict ` set es. \<exists>e\<in>set es. dict e = a \<and> s' a = with_labels (base a) e"
    by blast+
  show ?thesis
    unfolding labelled_inv_def
  proof
    fix e assume e: "e \<in> set rest"
    with r have f: "label_free (base (dict e))"
      and d: "s (dict e) = base (dict e) \<or> (\<exists>e0. s (dict e) = with_labels (base (dict e)) e0)"
      by (auto simp: labelled_inv_def)
    show "label_free (base (dict e)) \<and>
          (s' (dict e) = base (dict e) \<or> (\<exists>e0. s' (dict e) = with_labels (base (dict e)) e0))"
    proof (cases "dict e \<in> dict ` set es")
      case True
      with 3 f show ?thesis by blast
    next
      case False
      with 2 f d show ?thesis by simp
    qed
  qed
qed

lemma partition_loop_gen:
  assumes "labelled_inv base s (rows_of parts)"
    and "partition_loop make_tfrecord parts (s, files) = (s', files')"
  shows "files' = files @ map (proto_file make_tfrecord base) parts \<and>
         (\<forall>a. a \<notin> dict ` set (rows_of parts) \<longrightarrow> s' a = s a) \<and>
         (\<forall>a\<in>dict ` set (rows_of parts).
            \<exists>e\<in>set (rows_of parts). dict e = a \<and> s' a = with_labels (base a) e)"
  using assms
proof (induction parts arbitrary: s files)
  case Nil
  then show ?case by (simp add: rows_of_def)
next
  case (Cons p parts)
  obtain name dataset where p: "p = (name, dataset)" by (cases p)
  obtain s1 written where w: "write_loop make_tfrecord dataset (s, []) = (s1, written)"
    by (cases "write_loop make_tfrecord dataset (s, [])")
  from Cons.prems(1) have inv: "labelled_inv base s (dataset @ rows_of parts)"
    by (simp add: rows_of_def p)
  then have i: "labelled_inv base s dataset"
    by (auto simp: labelled_inv_def)
  from write_loop_gen [OF i w]
  have w1: "written = map (\<lambda>e. make_tfrecord (with_labels (base (dict e)) e)) dataset"
    and w2: "\<forall>a. a \<notin> dict ` set dataset \<longrightarrow> s1 a = s a"
    and w3: "\<forall>a\<in>dict ` set dataset. \<exists>e\<in>set dataset. dict e = a \<and> s1 a = with_labels (base a) e"
    by simp_all
  have inv1: "labelled_inv base s1 (rows_of parts)"
    by (rule write_loop_inv [OF inv w])
  from Cons.prems(2) have pl: "partition_loop make_tfrecord parts
      (s1, files @ [(''datasets/'' @ name @ ''_data.proto'', written)]) = (s', files')"
    by (simp add: p w)
  from Cons.IH [OF inv1 pl]
  have 1: "files' = (files @ [(''datasets/'' @ name @ ''_data.proto'', written)]) @
                    map (proto_file make_tfrecord base) parts"
    and 2: "\<forall>a. a \<notin> dict ` set (rows_of parts) \<longrightarrow> s' a = s1 a"
    and 3: "\<forall>a\<in>dict ` set (rows_of parts).
              \<exists>e\<in>set (rows_of parts). dict e = a \<and> s' a = with_labels (base a) e"
    by blast+
  have r: "set (rows_of (p # parts)) = set dataset \<union> set (rows_of parts)"
    by (simp add: rows_of_def p)
  from 1 w1 have "files' = files @ map (proto_file make_tfrecord base) (p # parts)"
    by (simp add: proto_file_def p)
  moreover have "\<forall>a. a \<notin> dict ` set (rows_of (p # parts)) \<longrightarrow> s' a = s a"
  proof (intro allI impI)
    fix a assume "a \<notin> dict ` set (rows_of (p # parts))"
    then have "a \<notin> dict ` set dataset" and "a \<notin> dict ` set (rows_of parts)"
      unfolding r by auto
    with 2 w2 show "s' a = s a" by simp
  qed
  moreover have "\<forall>a\<in>dict ` set (rows_of (p # parts)).
      \<exists>e\<in>set (rows_of (p # parts)). dict e = a \<and> s' a = with_labels (base a) e"
  proof
    fix a assume a: "a \<in> dict ` set (rows_of (p # parts))"
    show "\<exists>e\<in>set (rows_of (p # parts)). dict e = a \<and> s' a = with_labels (base a) e"
    proof (cases "a \<in> dict ` set (rows_of parts)")
      case True
      with 3 show ?thesis unfolding r by blast
    next
      case False
      with a have "a \<in> dict ` set dataset" unfolding r by auto
      with w3 False 2 show ?thesis unfolding r by auto
    qed
  qed
  ultimately show ?case by blast
qed

lemma encoder_keys_label_free:
  assumes "map fst d = [''n_atom'', ''n_bond'', ''atom'', ''bond'', ''connectivity'']"
  shows "label_free d"
proof -
  have "fst ` set d = set [''n_atom'', ''n_bond'', ''atom'', ''bond'', ''connectivity'']"
    unfolding assms [symmetric] by simp
  then show ?thesis by (simp add: label_free_def)
qed

lemma partition_loop_example:
  "partition_loop (map fst) [(''train'', [row0]), (''test'', [row1])] (\<lambda>a. helium_dict, []) =
     ((\<lambda>a. helium_dict)
        (0 := helium_dict @ [(''u0_atom'', PyFloat (- 1)), (''bandgap'', PyFloat 2)],
         1 := helium_dict @ [(''u0_atom'', PyFloat (- 3)), (''bandgap'', PyFloat 4)]),
      [(''datasets/train_data.proto'',
        [[''n_atom'', ''n_bond'', ''atom'', ''bond'', ''connectivity'', ''u0_atom'', ''bandgap'']]),
       (''datasets/test_data.proto'',
        [[''n_atom'', ''n_bond'', ''atom'', ''bond'', ''connectivity'', ''u0_atom'', ''bandgap'']])])"
  by (simp add: row0_def row1_def helium_dict_def entry_get_def Let_def)

text \<open>
  Claim C10. Let every row of every partition point to a stored dictionary with exactly the
  five encoder fields. After the writing loop the dictionary stored at the address of a row
  \<open>e\<close> is the old one followed by the two labels \<open>u0_atom\<close> and \<open>bandgap\<close> of a row
  that points to it: it has seven fields, and its five encoder fields are the old ones. The
  change is in the store itself, at the row's address; no other object is created. Each
  file holds, for each of its rows in order, the serialisation of the row's dictionary with
  the row's two labels.
\<close>

theorem partition_loop_mutates_in_place:
  assumes "partition_loop make_tfrecord parts (s, []) = (s', files)"
    and "\<forall>e\<in>set (rows_of parts).
           map fst (s (dict e)) = [''n_atom'', ''n_bond'', ''atom'', ''bond'', ''connectivity'']"
    and "e \<in> set (rows_of parts)"
  shows "(\<exists>e'\<in>set (rows_of parts). dict e' = dict e \<and>
            s' (dict e) = s (dict e) @ [(''u0_atom'', PyFloat (u0_atom e')),
                                        (''bandgap'', PyFloat (bandgap e'))]) \<and>
         map fst (s' (dict e)) =
           [''n_atom'', ''n_bond'', ''atom'', ''bond'', ''connectivity'', ''u0_atom'', ''bandgap''] \<and>
         (\<forall>k\<in>set [''n_atom'', ''n_bond'', ''atom'', ''bond'', ''connectivity''].
            map_of (s' (dict e)) k = map_of (s (dict e)) k) \<and>
         files = map (\<lambda>(name, dataset).
                    (''datasets/'' @ name @ ''_data.proto'',
                     map (\<lambda>e. make_tfrecord
                            (s (dict e) @ [(''u0_atom'', PyFloat (u0_atom e)),
                                           (''bandgap'', PyFloat (bandgap e))])) dataset)) parts"
proof -
  have inv: "labelled_inv s s (rows_of parts)"
    using assms(2) by (simp add: labelled_inv_def encoder_keys_label_free)
  from partition_loop_gen [OF inv assms(1)]
  have f: "files = map (proto_file make_tfrecord s) parts"
    and l: "\<forall>a\<in>dict ` set (rows_of parts).
              \<exists>e\<in>set (rows_of parts). dict e = a \<and> s' a = with_labels (s a) e"
    by simp_all
  from l assms(3) obtain e' where e': "e' \<in> set (rows_of parts)" "dict e' = dict e"
    and s': "s' (dict e) = with_labels (s (dict e)) e'"
    by blast
  from assms(2,3) have k: "map fst (s (dict e)) =
      [''n_atom'', ''n_bond'', ''atom'', ''bond'', ''connectivity'']"
    by blast
  have 1: "\<exists>e'\<in>set (rows_of parts). dict e' = dict e \<and>
            s' (dict e) = s (dict e) @ [(''u0_atom'', PyFloat (u0_atom e')),
                                        (''bandgap'', PyFloat (bandgap e'))]"
    using e' s' by (auto simp: with_labels_def)
  have 2: "map fst (s' (dict e)) =
      [''n_atom'', ''n_bond'', ''atom'', ''bond'', ''connectivity'', ''u0_atom'', ''bandgap'']"
    by (simp add: s' with_labels_def k)
  have d: "dom (map_of (s (dict e))) =
      set [''n_atom'', ''n_bond'', ''atom'', ''bond'', ''connectivity'']"
    unfolding dom_map_of_conv_image_fst k [symmetric] by simp
  have 3: "\<forall>k\<in>set [''n_atom'', ''n_bond'', ''atom'', ''bond'', ''connectivity''].
            map_of (s' (dict e)) k = map_of (s (dict e)) k"
  proof
    fix k assume "k \<in> set [''n_atom'', ''n_bond'', ''atom'', ''bond'', ''connectivity'']"
    with d have "k \<in> dom (map_of (s (dict e)))" by simp
    then show "map_of (s' (dict e)) k = map_of (s (dict e)) k"
      by (auto simp: s' with_labels_def map_add_def split: option.splits)
  qed
  have 4: "files = map (\<lambda>(name, dataset).
                    (''datasets/'' @ name @ ''_data.proto'',
                     map (\<lambda>e. make_tfrecord
                            (s (dict e) @ [(''u0_atom'', PyFloat (u0_atom e)),
                                           (''bandgap'', PyFloat (bandgap e))])) dataset)) parts"
    unfolding f by (simp add: proto_file_def with_labels_def case_prod_beta)
  from 1 2 3 4 show ?thesis by blast
qed

theorem partition_loop_mutates_in_place_witness:
  "partition_loop (map fst) [(''train'', [row0]), (''test'', [row1])] (\<lambda>a. helium_dict, []) =
     ((\<lambda>a. helium_dict)
        (0 := helium_dict @ [(''u0_atom'', PyFloat (- 1)), (''bandgap'', PyFloat 2)],
         1 := helium_dict @ [(''u0_atom'', PyFloat (- 3)), (''bandgap'', PyFloat 4)]),
      [(''datasets/train_data.proto'',
        [[''n_atom'', ''n_bond'', ''atom'', ''bond'', ''connectivity'', ''u0_atom'', ''bandgap'']]),
       (''datasets/test_data.proto'',
        [[''n_atom'', ''n_bond'', ''atom'', ''bond'', ''connectivity'', ''u0_atom'', ''bandgap'']])]) \<and>
   map fst helium_dict = [''n_atom'', ''n_bond'', ''atom'', ''bond'', ''connectivity''] \<and>
   row1 \<in> set (rows_of [(''train'', [row0]), (''test'', [row1])]) \<and>
   map fst
     (((\<lambda>a. helium_dict)
        (0 := helium_dict @ [(''u0_atom'', PyFloat (- 1)), (''bandgap'', PyFloat 2)],
         1 := helium_dict @ [(''u0_atom'', PyFloat (- 3)), (''bandgap'', PyFloat 4)]))
      (dict row1)) =
     [''n_atom'', ''n_bond'', ''atom'', ''bond'', ''connectivity'', ''u0_atom'', ''bandgap''] \<and>
   map (map_of
        (((\<lambda>a. helium_dict)
           (0 := helium_dict @ [(''u0_atom'', PyFloat (- 1)), (''bandgap'', PyFloat 2)],
            1 := helium_dict @ [(''u0_atom'', PyFloat (- 3)), (''bandgap'', PyFloat 4)]))
         (dict row1)))
     [''n_atom'', ''n_bond'', ''atom'', ''bond'', ''connectivity''] =
   map (map_of helium_dict) [''n_atom'', ''n_bond'', ''atom'', ''bond'', ''connectivity'']"
proof -
  have k: "map fst helium_dict = [''n_atom'', ''n_bond'', ''atom'', ''bond'', ''connectivity'']"
    by (simp add: helium_dict_def)
  then have h: "\<forall>e\<in>set (rows_of [(''train'', [row0]), (''test'', [row1])]).
      map fst ((\<lambda>a. helium_dict) (dict e)) =
        [''n_atom'', ''n_bond'', ''atom'', ''bond'', ''connectivity'']"
    by simp
  have m: "row1 \<in> set (rows_of [(''train'', [row0]), (''test'', [row1])])"
    by (simp add: rows_of_def)
  from partition_loop_mutates_in_place [OF partition_loop_example h m]
  have "map fst
     (((\<lambda>a. helium_dict)
        (0 := helium_dict @ [(''u0_atom'', PyFloat (- 1)), (''bandgap'', PyFloat 2)],
         1 := helium_dict @ [(''u0_atom'', PyFloat (- 3)), (''bandgap'', PyFloat 4)]))
      (dict row1)) =
     [''n_atom'', ''n_bond'', ''atom'', ''bond'', ''connectivity'', ''u0_atom'', ''bandgap'']"
    and "\<forall>k\<in>set [''n_atom'', ''n_bond'', ''atom'', ''bond'', ''connectivity''].
      map_of
        (((\<lambda>a. helium_dict)
           (0 := helium_dict @ [(''u0_atom'', PyFloat (- 1)), (''bandgap'', PyFloat 2)],
            1 := helium_dict @ [(''u0_atom'', PyFloat (- 3)), (''bandgap'', PyFloat 4)]))
         (dict row1)) k =
      map_of ((\<lambda>a. helium_dict) (dict row1)) k"
    by blast+
  with partition_loop_example k m show ?thesis by simp
qed

end
